theory Spec2Isabelle
  imports Complex_Main "HOL-Library.Word"
begin

section \<open>Strings\<close>

text \<open>
  A JavaScript string is a sequence of UTF-16 code units; \<open>length\<close>,
  \<open>slice\<close>, \<open>trim\<close> and the regular expressions of the client all
  work on code units. \<open>lit\<close> embeds an ASCII literal of the source.
\<close>

type_synonym code_unit = "16 word"
type_synonym jsstring = "code_unit list"

definition lit :: "string \<Rightarrow> jsstring" where
  "lit s = map of_char s"

definition DQUOTE :: code_unit where
  "DQUOTE = 0x22"

definition SQUOTE :: code_unit where
  "SQUOTE = 0x27"

definition BACKSLASH :: code_unit where
  "BACKSLASH = 0x5C"

definition ELLIPSIS :: code_unit where
  "ELLIPSIS = 0x2026"

text \<open>\<open>s.slice(start, end)\<close> for non-negative arguments.\<close>

definition slice :: "nat \<Rightarrow> nat \<Rightarrow> 'a list \<Rightarrow> 'a list" where
  "slice start stop xs = take (stop - start) (drop start xs)"

text \<open>
  \<open>String.prototype.trim\<close> removes white space and line terminators from both ends:
  TAB, LF, VT, FF, CR, SP, NBSP, U+1680, U+2000..U+200A, U+2028, U+2029, U+202F, U+205F,
  U+3000 and U+FEFF.
\<close>

definition is_js_whitespace :: "code_unit \<Rightarrow> bool" where
  "is_js_whitespace c \<longleftrightarrow>
     c = 0x09 \<or> c = 0x0A \<or> c = 0x0B \<or> c = 0x0C \<or> c = 0x0D \<or> c = 0x20 \<or> c = 0xA0 \<or>
     c = 0x1680 \<or> (0x2000 \<le> c \<and> c \<le> 0x200A) \<or> c = 0x2028 \<or> c = 0x2029 \<or>
     c = 0x202F \<or> c = 0x205F \<or> c = 0x3000 \<or> c = 0xFEFF"

definition trim :: "jsstring \<Rightarrow> jsstring" where
  "trim s = rev (dropWhile is_js_whitespace (rev (dropWhile is_js_whitespace s)))"

text \<open>\<open>s.replace(/c/g, by)\<close> for a single code unit \<open>c\<close>.\<close>

definition replace_all :: "code_unit \<Rightarrow> jsstring \<Rightarrow> jsstring \<Rightarrow> jsstring" where
  "replace_all c repl s = concat (map (\<lambda>x. if x = c then repl else [x]) s)"

text \<open>
  \<^verbatim>\<open>
  function limitText(text, max) { return text.length > max ? `${text.slice(0, max)}...` : text }
  \<close>
  where the suffix is the single code unit U+2026.
\<close>

definition limitText :: "jsstring \<Rightarrow> nat \<Rightarrow> jsstring" where
  "limitText text maxlen = (if length text > maxlen then slice 0 maxlen text @ [ELLIPSIS] else text)"

definition MAX_CONTENT_LENGTH :: nat where
  "MAX_CONTENT_LENGTH = 50000"

definition EMBED_RETRY_COUNT :: nat where
  "EMBED_RETRY_COUNT = 3"

definition EMBED_RETRY_DELAY_MS :: nat where
  "EMBED_RETRY_DELAY_MS = 1000"

text \<open>
  \<^verbatim>\<open>
  function sanitizeId(id) { return id.replace(/"/g, '\\"').replace(/'/g, "\\'") }
  \<close>
  Each replacement string is two code units: a backslash and the quote.
\<close>

definition sanitizeId :: "jsstring \<Rightarrow> jsstring" where
  "sanitizeId i =
     replace_all SQUOTE [BACKSLASH, SQUOTE] (replace_all DQUOTE [BACKSLASH, DQUOTE] i)"

text \<open>The filter text \<^verbatim>\<open>`id = "${safeId}"`\<close> of \<open>deleteMemory\<close>,
  \<open>addMemory\<close> and \<open>ensureTable\<close>.\<close>

definition id_filter :: "jsstring \<Rightarrow> jsstring" where
  "id_filter safeId = lit ''id = '' @ [DQUOTE] @ safeId @ [DQUOTE]"

section \<open>Data model\<close>

type_synonym vector = "real list"

datatype scalar = SString jsstring | SNumber real | SBoolean bool

type_synonym metadata = "(jsstring \<times> scalar) list"

text \<open>
  The \<open>metadata\<close> column holds text. \<open>Stringified m\<close> is the text
  \<open>JSON.stringify(m)\<close>; \<open>Malformed t\<close> is any text that \<open>JSON.parse\<close>
  rejects.
\<close>

datatype json_text = Stringified metadata | Malformed jsstring

definition JSON_stringify :: "metadata \<Rightarrow> json_text" where
  "JSON_stringify m = Stringified m"

fun JSON_parse :: "json_text \<Rightarrow> metadata option" where
  "JSON_parse (Stringified m) = Some m"
| "JSON_parse (Malformed t) = None"

record MemoryRecord =
  id_rec :: jsstring
  content :: jsstring
  vector :: vector
  metadata :: json_text
  createdAt :: jsstring
  updatedAt :: jsstring

record SearchResult =
  id_res :: jsstring
  content_res :: jsstring
  memory :: "jsstring option"
  similarity :: "real option"
  metadata_res :: metadata

text \<open>
  The type \<open>UserProfile\<close> declares three fields. The object that \<open>JSON.parse\<close>
  returns for the profile file has each of them or not (\<open>None\<close>: the property is
  missing or \<open>null\<close>). A field that is there has the type the client writes: a
  list of strings, or a string.
\<close>

record UserProfile =
  static :: "jsstring list option"
  dynamic :: "jsstring list option"
  lastUpdated :: "jsstring option"

text \<open>
  What reading and parsing the profile file gives: \<open>NoProfile\<close> when the file is
  missing or \<open>JSON.parse\<close> throws, \<open>NotAnObject\<close> when it parses to \<open>null\<close>
  or to a number, a string or a boolean, and \<open>Parsed p\<close> when it parses to an
  object that is no array.
\<close>

datatype profile_content = NoProfile | NotAnObject | Parsed UserProfile

record forget_result =
  success :: bool
  message :: jsstring

section \<open>Errors\<close>

text \<open>
  What a collaborator's promise rejects with: an instance of \<open>Error\<close> (with its
  message) or any other value (with its \<open>String(...)\<close> rendering).
\<close>

datatype thrown = ErrorInstance jsstring | NonError jsstring

datatype store_error = NoSuchTable | BadFilter jsstring | DimensionMismatch nat nat | BadQueryVector

text \<open>
  One constructor for each place that throws:
  \<^item> \<open>EmptyContent\<close>: \<^verbatim>\<open>new Error("Cannot store empty content")\<close>;
  \<^item> \<open>ContentTooLarge n m\<close>: \<^verbatim>\<open>new Error(`Content too large (${n} chars, max ${m})`)\<close>;
  \<^item> \<open>DatabaseNotInitialized\<close>: \<^verbatim>\<open>new Error("Database not initialized")\<close>;
  \<^item> \<open>EmbeddingFailedAfterRetries\<close>: \<^verbatim>\<open>new Error("Embedding failed after retries")\<close>;
  \<^item> \<open>Thrown t\<close>: the value \<open>t\<close> a collaborator threw, passed on as it is;
  \<^item> \<open>Wrapped v\<close>: \<^verbatim>\<open>new Error(String(err))\<close> for a thrown value that is no \<open>Error\<close>;
  \<^item> \<open>TypeError\<close>: a property read or written on \<open>undefined\<close>, on \<open>null\<close> or
    on a primitive value;
  \<^item> \<open>StoreError\<close>: the store engine rejects a call.
\<close>

datatype error =
    EmptyContent
  | ContentTooLarge nat nat
  | DatabaseNotInitialized
  | EmbeddingFailedAfterRetries
  | Thrown thrown
  | Wrapped jsstring
  | TypeError
  | StoreError store_error

text \<open>\<^verbatim>\<open>err instanceof Error ? err : new Error(String(err))\<close>\<close>

fun as_Error :: "thrown \<Rightarrow> error" where
  "as_Error (ErrorInstance m) = Thrown (ErrorInstance m)"
| "as_Error (NonError v) = Wrapped v"

section \<open>Environment and state\<close>

text \<open>
  The collaborators outside the client are parameters:
  \<^item> \<open>ollama_embed k text\<close> is the outcome of the \<open>k\<close>-th call (counted from 0)
    of \<open>ollama.embed({model, input: text})\<close>: a rejection, or the \<open>embeddings\<close>
    array of the response;
  \<^item> \<open>distance\<close> is the store engine's metric;
  \<^item> \<open>other_filter\<close> is what the store engine makes of a filter text that is not
    of the form \<open>id = "literal"\<close>: it rejects the text, or reads it as a condition
    on a row;
  \<^item> \<open>iso_now\<close> is \<open>new Date().toISOString()\<close>, \<open>date_now\<close> the text of
    \<open>Date.now()\<close> and \<open>random36\<close> the text of \<open>Math.random().toString(36)\<close>,
    as read during the operation.
\<close>

record env =
  ollama_embed :: "nat \<Rightarrow> jsstring \<Rightarrow> thrown + vector list"
  distance :: "vector \<Rightarrow> vector \<Rightarrow> real"
  other_filter :: "jsstring \<Rightarrow> store_error + (MemoryRecord \<Rightarrow> bool)"
  iso_now :: jsstring
  date_now :: jsstring
  random36 :: jsstring

record lance_table =
  dim :: nat
  rows :: "MemoryRecord list"

datatype store_call =
    Connect
  | TableNames
  | OpenTable
  | CreateTable nat
  | Delete jsstring
  | Add jsstring
  | VectorSearch nat
  | CountRows
  | DropTable

text \<open>
  The client's fields \<open>db\<close>, \<open>table\<close> and \<open>initPromise\<close> are handles:
  the model keeps whether each is set. \<open>disk\<close> is the table \<open>memories\<close> of the
  database at \<open>dbPath\<close> (\<open>None\<close>: no such table) and \<open>profile_file\<close> the
  content of the file at \<open>profilePath\<close>, as \<open>JSON.parse\<close> reads it. The rest
  records effects: the number of embedding calls made, the delays handed to
  \<open>setTimeout\<close>, the calls made to the store engine, and the number of writes of the
  profile file.
\<close>

record state =
  db :: bool
  table :: bool
  initPromise :: bool
  disk :: "lance_table option"
  profile_file :: profile_content
  embed_calls :: nat
  timers :: "nat list"
  store_log :: "store_call list"
  profile_writes :: nat

definition log_call :: "store_call \<Rightarrow> state \<Rightarrow> state" where
  "log_call c s = s\<lparr>store_log := store_log s @ [c]\<rparr>"

section \<open>The store engine\<close>

text \<open>
  The vector store is a library outside the repository. Its operations follow the
  contract the design gives for them: \<open>createTable\<close> in overwrite mode fixes the
  dimension from the seed record, \<open>add\<close> appends one record and rejects a vector of
  another dimension, \<open>delete\<close> removes the records that its filter holds of (none
  is no error) and rejects a filter it cannot read, \<open>vectorSearch\<close> returns up to
  \<open>limit\<close> records by
  ascending distance, \<open>countRows\<close> counts and \<open>dropTable\<close> removes the table. A
  call through a table handle whose table is gone is rejected.

  The filter is text. In a double-quoted literal the engine takes every code unit but
  the double quote as it is, the backslash too, and the literal ends at the first double
  quote. \<open>read_literal\<close> reads a literal after its opening quote and returns its
  value and the text left after the closing quote. \<open>read_id_filter\<close> reads the
  form \<open>id = "literal"\<close>, with nothing after the literal, as the comparison of
  the column \<open>id\<close> with the value. What the engine makes of any other text is the
  parameter \<open>other_filter\<close>.
\<close>

fun read_literal :: "jsstring \<Rightarrow> (jsstring \<times> jsstring) option" where
  "read_literal [] = None"
| "read_literal (c # cs) =
     (if c = DQUOTE then Some ([], cs)
      else map_option (\<lambda>(v, rest). (c # v, rest)) (read_literal cs))"

definition read_id_filter :: "jsstring \<Rightarrow> jsstring option" where
  "read_id_filter flt =
     (if take 6 flt = lit ''id = '' @ [DQUOTE] then
        (case read_literal (drop 6 flt) of
           Some (v, rest) \<Rightarrow> (if rest = [] then Some v else None)
         | None \<Rightarrow> None)
      else None)"

definition read_filter :: "env \<Rightarrow> jsstring \<Rightarrow> store_error + (MemoryRecord \<Rightarrow> bool)" where
  "read_filter e flt =
     (case read_id_filter flt of
        Some v \<Rightarrow> Inr (\<lambda>r. id_rec r = v)
      | None \<Rightarrow> other_filter e flt)"

definition db_createTable :: "MemoryRecord \<Rightarrow> state \<Rightarrow> state" where
  "db_createTable seed s =
     (log_call (CreateTable (length (vector seed))) s)
       \<lparr>disk := Some \<lparr>dim = length (vector seed), rows = [seed]\<rparr>\<rparr>"

definition table_delete :: "env \<Rightarrow> jsstring \<Rightarrow> state \<Rightarrow> (error + unit) \<times> state" where
  "table_delete e flt s =
     (let s1 = log_call (Delete flt) s in
      case disk s1 of
        None \<Rightarrow> (Inl (StoreError NoSuchTable), s1)
      | Some t \<Rightarrow>
          (case read_filter e flt of
             Inl err \<Rightarrow> (Inl (StoreError err), s1)
           | Inr matches \<Rightarrow>
               (Inr (), s1\<lparr>disk := Some (t\<lparr>rows := filter (\<lambda>r. \<not> matches r) (rows t)\<rparr>)\<rparr>)))"

definition table_add :: "MemoryRecord \<Rightarrow> state \<Rightarrow> (error + unit) \<times> state" where
  "table_add r s =
     (let s1 = log_call (Add (id_rec r)) s in
      case disk s1 of
        None \<Rightarrow> (Inl (StoreError NoSuchTable), s1)
      | Some t \<Rightarrow>
          (if length (vector r) \<noteq> dim t
           then (Inl (StoreError (DimensionMismatch (length (vector r)) (dim t))), s1)
           else (Inr (), s1\<lparr>disk := Some (t\<lparr>rows := rows t @ [r]\<rparr>)\<rparr>)))"

text \<open>A row of a search result carries the engine's \<open>_distance\<close> column.\<close>

type_synonym hit = "MemoryRecord \<times> real option"

definition nearest :: "env \<Rightarrow> vector \<Rightarrow> nat \<Rightarrow> MemoryRecord list \<Rightarrow> hit list" where
  "nearest e q limit rs =
     map (\<lambda>(r, d). (r, Some d))
       (take limit (sort_key snd (map (\<lambda>r. (r, distance e q (vector r))) rs)))"

definition table_vectorSearch ::
  "env \<Rightarrow> vector option \<Rightarrow> nat \<Rightarrow> state \<Rightarrow> (error + hit list) \<times> state" where
  "table_vectorSearch e q limit s =
     (let s1 = log_call (VectorSearch limit) s in
      case disk s1 of
        None \<Rightarrow> (Inl (StoreError NoSuchTable), s1)
      | Some t \<Rightarrow>
          (case q of
             None \<Rightarrow> (Inl (StoreError BadQueryVector), s1)
           | Some v \<Rightarrow>
               (if length v \<noteq> dim t
                then (Inl (StoreError (DimensionMismatch (length v) (dim t))), s1)
                else (Inr (nearest e v limit (rows t)), s1))))"

definition table_countRows :: "state \<Rightarrow> (error + nat) \<times> state" where
  "table_countRows s =
     (let s1 = log_call CountRows s in
      case disk s1 of
        None \<Rightarrow> (Inl (StoreError NoSuchTable), s1)
      | Some t \<Rightarrow> (Inr (length (rows t)), s1))"

definition db_dropTable :: "state \<Rightarrow> (error + unit) \<times> state" where
  "db_dropTable s =
     (let s1 = log_call DropTable s in
      case disk s1 of
        None \<Rightarrow> (Inl (StoreError NoSuchTable), s1)
      | Some t \<Rightarrow> (Inr (), s1\<lparr>disk := None\<rparr>))"

section \<open>The client\<close>

text \<open>
  \<^verbatim>\<open>
  function generateId() {
    return `mem_${Date.now()}_${Math.random().toString(36).slice(2, 10)}`
  }
  \<close>
\<close>

definition generateId :: "env \<Rightarrow> jsstring" where
  "generateId e = lit ''mem_'' @ date_now e @ lit ''_'' @ slice 2 10 (random36 e)"

text \<open>
  \<open>doInit\<close> connects, lists the tables and opens \<open>memories\<close> when it is there
  (creating the two directories leaves the state of the model as it is).
  \<open>ensureInitialized\<close> runs it when no \<open>initPromise\<close> is cached and awaits the
  cached one otherwise. Logging has no effect on the state.
\<close>

definition doInit :: "state \<Rightarrow> state" where
  "doInit s =
     (let s1 = (log_call Connect s)\<lparr>db := True\<rparr>;
          s2 = log_call TableNames s1
      in if disk s2 \<noteq> None then (log_call OpenTable s2)\<lparr>table := True\<rparr> else s2)"

definition ensureInitialized :: "state \<Rightarrow> state" where
  "ensureInitialized s = (if \<not> initPromise s then doInit (s\<lparr>initPromise := True\<rparr>) else s)"

text \<open>\<open>xs[0]\<close>: \<open>undefined\<close> on an empty array.\<close>

fun first :: "'a list \<Rightarrow> 'a option" where
  "first [] = None"
| "first (x # xs) = Some x"

text \<open>
  The retry loop of \<open>embed\<close>, from \<open>attempt\<close> on, with the \<open>lastError\<close> so far.
  \<^verbatim>\<open>
  for (let attempt = 0; attempt < EMBED_RETRY_COUNT; attempt++) {
    try { const response = await this.ollama.embed(...); return response.embeddings[0] }
    catch (err) {
      lastError = err instanceof Error ? err : new Error(String(err))
      if (attempt < EMBED_RETRY_COUNT - 1)
        await new Promise((r) => setTimeout(r, EMBED_RETRY_DELAY_MS * (attempt + 1)))
    }
  }
  throw lastError ?? new Error("Embedding failed after retries")
  \<close>
\<close>

function embed_loop ::
  "env \<Rightarrow> jsstring \<Rightarrow> nat \<Rightarrow> error option \<Rightarrow> state \<Rightarrow> (error + vector option) \<times> state" where
  "embed_loop e text attempt lastError s =
     (if attempt < EMBED_RETRY_COUNT then
        (case ollama_embed e (embed_calls s) text of
           Inr embeddings \<Rightarrow> (Inr (first embeddings), s\<lparr>embed_calls := embed_calls s + 1\<rparr>)
         | Inl err \<Rightarrow>
             embed_loop e text (attempt + 1) (Some (as_Error err))
               (if attempt < EMBED_RETRY_COUNT - 1
                then s\<lparr>embed_calls := embed_calls s + 1,
                       timers := timers s @ [EMBED_RETRY_DELAY_MS * (attempt + 1)]\<rparr>
                else s\<lparr>embed_calls := embed_calls s + 1\<rparr>))
      else (Inl (case lastError of Some le \<Rightarrow> le | None \<Rightarrow> EmbeddingFailedAfterRetries), s))"
  by pat_completeness auto
termination
  by (relation "measure (\<lambda>(e, text, attempt, lastError, s). EMBED_RETRY_COUNT - attempt)") auto

definition embed :: "env \<Rightarrow> jsstring \<Rightarrow> state \<Rightarrow> (error + vector option) \<times> state" where
  "embed e text s = embed_loop e text 0 None s"

definition emptyRecord :: "env \<Rightarrow> nat \<Rightarrow> MemoryRecord" where
  "emptyRecord e vectorDim =
     \<lparr>id_rec = lit ''__init__'', content = [], vector = replicate vectorDim 0,
      metadata = Stringified [], createdAt = iso_now e, updatedAt = iso_now e\<rparr>"

definition ensureTable :: "env \<Rightarrow> nat \<Rightarrow> state \<Rightarrow> (error + unit) \<times> state" where
  "ensureTable e vectorDim s =
     (if table s then (Inr (), s)
      else if \<not> db s then (Inl DatabaseNotInitialized, s)
      else table_delete e (id_filter (sanitizeId (lit ''__init__'')))
             ((db_createTable (emptyRecord e vectorDim) s)\<lparr>table := True\<rparr>))"

text \<open>
  \<open>addMemory(content, metadata?, customId?)\<close>. An optional argument left out is
  \<open>None\<close>. \<open>customId ?? generateId()\<close> takes every string given, also the empty one;
  \<open>if (customId)\<close> holds for a non-empty string only. An error of the delete inside
  \<open>try\<close> is dropped, and the table is then as it was before the delete.
\<close>

definition addMemory ::
  "env \<Rightarrow> jsstring \<Rightarrow> metadata option \<Rightarrow> jsstring option \<Rightarrow> state \<Rightarrow> (error + jsstring) \<times> state" where
  "addMemory e content0 metadata0 customId s =
     (let s1 = ensureInitialized s;
          cleaned = trim content0
      in if cleaned = [] then (Inl EmptyContent, s1)
         else if length cleaned > MAX_CONTENT_LENGTH
         then (Inl (ContentTooLarge (length cleaned) MAX_CONTENT_LENGTH), s1)
         else
           (case embed e cleaned s1 of
              (Inl err, s2) \<Rightarrow> (Inl err, s2)
            | (Inr None, s2) \<Rightarrow> (Inl TypeError, s2)
            | (Inr (Some vec), s2) \<Rightarrow>
                (case ensureTable e (length vec) s2 of
                   (Inl err, s3) \<Rightarrow> (Inl err, s3)
                 | (Inr u, s3) \<Rightarrow>
                     (let now = iso_now e;
                          i = (case customId of Some c \<Rightarrow> c | None \<Rightarrow> generateId e);
                          record = \<lparr>id_rec = i, content = cleaned, vector = vec,
                                    metadata = JSON_stringify (case metadata0 of Some m \<Rightarrow> m | None \<Rightarrow> []),
                                    createdAt = now, updatedAt = now\<rparr>;
                          s4 = (case customId of
                                  None \<Rightarrow> s3
                                | Some c \<Rightarrow>
                                    (if c \<noteq> [] then
                                       (case table_delete e (id_filter (sanitizeId c)) s3 of
                                          (Inl err, s') \<Rightarrow> s'
                                        | (Inr u', s') \<Rightarrow> s')
                                     else s3))
                      in case table_add record s4 of
                           (Inl err, s5) \<Rightarrow> (Inl err, s5)
                         | (Inr u', s5) \<Rightarrow> (Inr i, s5)))))"

text \<open>
  \<open>search(query, limit = 5)\<close>. Each row becomes a result; metadata that does not
  parse becomes the empty mapping, and \<open>similarity\<close> is \<open>1 - _distance\<close> when the
  engine gives a distance.
\<close>

definition toSearchResult :: "hit \<Rightarrow> SearchResult" where
  "toSearchResult h =
     (case h of (r, d) \<Rightarrow>
        \<lparr>id_res = id_rec r, content_res = content r, memory = Some (content r),
         similarity = (case d of Some x \<Rightarrow> Some (1 - x) | None \<Rightarrow> None),
         metadata_res = (case JSON_parse (metadata r) of Some m \<Rightarrow> m | None \<Rightarrow> [])\<rparr>)"

definition search ::
  "env \<Rightarrow> jsstring \<Rightarrow> nat option \<Rightarrow> state \<Rightarrow> (error + SearchResult list) \<times> state" where
  "search e query limit0 s =
     (let s1 = ensureInitialized s;
          limit = (case limit0 of Some n \<Rightarrow> n | None \<Rightarrow> 5)
      in if \<not> table s1 then (Inr [], s1)
         else
           (case embed e query s1 of
              (Inl err, s2) \<Rightarrow> (Inl err, s2)
            | (Inr queryVector, s2) \<Rightarrow>
                (case table_vectorSearch e queryVector limit s2 of
                   (Inl err, s3) \<Rightarrow> (Inl err, s3)
                 | (Inr results, s3) \<Rightarrow> (Inr (map toSearchResult results), s3))))"

definition deleteMemory :: "env \<Rightarrow> jsstring \<Rightarrow> state \<Rightarrow> (error + unit) \<times> state" where
  "deleteMemory e i s =
     (let s1 = ensureInitialized s
      in if \<not> table s1 then (Inr (), s1)
         else table_delete e (id_filter (sanitizeId i)) s1)"

text \<open>\<open>target.content || target.memory || ""\<close>: the first operand that is a
  non-empty string.\<close>

definition preview_source :: "SearchResult \<Rightarrow> jsstring" where
  "preview_source target =
     (if content_res target \<noteq> [] then content_res target
      else (case memory target of
              Some m \<Rightarrow> (if m \<noteq> [] then m else [])
            | None \<Rightarrow> []))"

definition forgetByQuery :: "env \<Rightarrow> jsstring \<Rightarrow> state \<Rightarrow> (error + forget_result) \<times> state" where
  "forgetByQuery e query s =
     (case search e query (Some 5) s of
        (Inl err, s1) \<Rightarrow> (Inl err, s1)
      | (Inr results, s1) \<Rightarrow>
          (case results of
             [] \<Rightarrow>
               (Inr \<lparr>success = False, message = lit ''No matching memory found to forget.''\<rparr>, s1)
           | target # others \<Rightarrow>
               (case deleteMemory e (id_res target) s1 of
                  (Inl err, s2) \<Rightarrow> (Inl err, s2)
                | (Inr u, s2) \<Rightarrow>
                    (let preview = limitText (preview_source target) 100
                     in (Inr \<lparr>success = True,
                              message = lit ''Forgot: '' @ [DQUOTE] @ preview @ [DQUOTE]\<rparr>, s2)))))"

text \<open>\<open>wipeAllMemories()\<close> returns \<open>deletedCount\<close>.\<close>

definition wipeAllMemories :: "state \<Rightarrow> (error + nat) \<times> state" where
  "wipeAllMemories s =
     (let s1 = ensureInitialized s
      in if \<not> table s1 \<or> \<not> db s1 then (Inr 0, s1)
         else
           (case table_countRows s1 of
              (Inl err, s2) \<Rightarrow> (Inl err, s2)
            | (Inr count, s2) \<Rightarrow>
                (case db_dropTable s2 of
                   (Inl err, s3) \<Rightarrow> (Inl err, s3)
                 | (Inr u, s3) \<Rightarrow> (Inr count, s3\<lparr>table := False\<rparr>))))"

text \<open>
  The loop of \<open>updateProfile\<close> over \<open>staticFacts\<close>. The set \<open>existing\<close> is built
  from the stored list before the loop and stays as it is while the loop pushes.
  \<^verbatim>\<open>
  const existing = new Set(profile.static)
  for (const fact of staticFacts) { if (!existing.has(fact)) profile.static.push(fact) }
  \<close>
\<close>

fun push_missing :: "jsstring set \<Rightarrow> jsstring list \<Rightarrow> jsstring list \<Rightarrow> jsstring list" where
  "push_missing existing [] acc = acc"
| "push_missing existing (f # fs) acc =
     push_missing existing fs (if f \<notin> existing then acc @ [f] else acc)"

text \<open>
  \<open>updateProfile(staticFacts?, dynamicFacts?)\<close>.
  \<^verbatim>\<open>
  let profile = { static: [], dynamic: [], lastUpdated: "" }
  try { profile = JSON.parse(await readFile(this.profilePath, "utf-8")) } catch { }
  if (staticFacts) { ... the loop ... }
  if (dynamicFacts) { profile.dynamic = dynamicFacts.slice(0, 20) }
  profile.lastUpdated = new Date().toISOString()
  await writeFile(this.profilePath, JSON.stringify(profile, null, 2))
  \<close>
  \<open>load_profile\<close> is the value of \<open>profile\<close> after the \<open>try\<close>: an object,
  or \<open>None\<close> for \<open>null\<close> and for a primitive value. On these a call throws a
  \<open>TypeError\<close>, at the latest where it assigns \<open>lastUpdated\<close>, which every call
  reaches (the module is in strict mode). When \<open>profile.static\<close> is \<open>undefined\<close>
  or \<open>null\<close> the set \<open>existing\<close> is empty and the first \<open>push\<close> throws a
  \<open>TypeError\<close>. An error leaves the file as it was.
\<close>

definition load_profile :: "state \<Rightarrow> UserProfile option" where
  "load_profile s =
     (case profile_file s of
        NoProfile \<Rightarrow> Some \<lparr>static = Some [], dynamic = Some [], lastUpdated = Some []\<rparr>
      | NotAnObject \<Rightarrow> None
      | Parsed p \<Rightarrow> Some p)"

definition merge_static :: "jsstring list option \<Rightarrow> UserProfile \<Rightarrow> error + UserProfile" where
  "merge_static staticFacts profile =
     (case staticFacts of
        None \<Rightarrow> Inr profile
      | Some facts \<Rightarrow>
          (case static profile of
             Some stored \<Rightarrow> Inr (profile\<lparr>static := Some (push_missing (set stored) facts stored)\<rparr>)
           | None \<Rightarrow> (if facts = [] then Inr profile else Inl TypeError)))"

definition writeFile :: "UserProfile \<Rightarrow> state \<Rightarrow> state" where
  "writeFile p s = s\<lparr>profile_file := Parsed p, profile_writes := profile_writes s + 1\<rparr>"

definition updateProfile ::
  "env \<Rightarrow> jsstring list option \<Rightarrow> jsstring list option \<Rightarrow> state \<Rightarrow> (error + unit) \<times> state" where
  "updateProfile e staticFacts dynamicFacts s =
     (let s1 = ensureInitialized s
      in case load_profile s1 of
           None \<Rightarrow> (Inl TypeError, s1)
         | Some profile \<Rightarrow>
             (case merge_static staticFacts profile of
                Inl err \<Rightarrow> (Inl err, s1)
              | Inr p1 \<Rightarrow>
                  (let p2 = (case dynamicFacts of
                               Some facts \<Rightarrow> p1\<lparr>dynamic := Some (slice 0 20 facts)\<rparr>
                             | None \<Rightarrow> p1);
                       p3 = p2\<lparr>lastUpdated := Some (iso_now e)\<rparr>
                   in (Inr (), writeFile p3 s1))))"

section \<open>Predicates of the statements\<close>

text \<open>The two errors that \<open>addMemory\<close> raises for content it refuses.\<close>

fun is_validation_error :: "error \<Rightarrow> bool" where
  "is_validation_error EmptyContent = True"
| "is_validation_error (ContentTooLarge n m) = True"
| "is_validation_error other = False"

text \<open>
  The handles of one client agree with the database it alone works on: a resolved
  \<open>initPromise\<close> comes with a connection, and with a table handle exactly when the
  table is there; a table handle comes only with a resolved \<open>initPromise\<close>. It
  holds of a client just constructed, whatever the database holds, and the operations
  keep it.
\<close>

definition handles_agree :: "state \<Rightarrow> bool" where
  "handles_agree s \<longleftrightarrow>
     (initPromise s \<longrightarrow> db s \<and> (table s \<longleftrightarrow> disk s \<noteq> None)) \<and> (table s \<longrightarrow> initPromise s)"

text \<open>The record that \<open>addMemory\<close> builds, and the rows its delete step leaves.\<close>

definition new_record :: "env \<Rightarrow> jsstring \<Rightarrow> metadata option \<Rightarrow> jsstring option \<Rightarrow> vector \<Rightarrow> MemoryRecord" where
  "new_record e c md cid vec =
     \<lparr>id_rec = (case cid of Some i \<Rightarrow> i | None \<Rightarrow> generateId e),
      content = trim c, vector = vec,
      metadata = JSON_stringify (case md of Some m \<Rightarrow> m | None \<Rightarrow> []),
      createdAt = iso_now e, updatedAt = iso_now e\<rparr>"

definition rows_after_delete :: "env \<Rightarrow> jsstring option \<Rightarrow> MemoryRecord list \<Rightarrow> MemoryRecord list" where
  "rows_after_delete e cid rs =
     (case cid of
        None \<Rightarrow> rs
      | Some i \<Rightarrow>
          (if i = [] then rs
           else (case read_filter e (id_filter (sanitizeId i)) of
                   Inl err \<Rightarrow> rs
                 | Inr matches \<Rightarrow> filter (\<lambda>r. \<not> matches r) rs)))"

text \<open>An identifier without a quote and without a backslash.\<close>

definition plain_id :: "jsstring \<Rightarrow> bool" where
  "plain_id i \<longleftrightarrow> DQUOTE \<notin> set i \<and> SQUOTE \<notin> set i \<and> BACKSLASH \<notin> set i"

section \<open>A client and environments to run the operations on\<close>

text \<open>A client just constructed, on a database without a table and no profile file.\<close>

definition fresh :: state where
  "fresh = \<lparr>db = False, table = False, initPromise = False, disk = None, profile_file = NoProfile,
            embed_calls = 0, timers = [], store_log = [], profile_writes = 0\<rparr>"

text \<open>A service that answers every call with the vector \<open>[1, 0]\<close>, and an engine
  that rejects every filter of another form.\<close>

definition env_ok :: env where
  "env_ok = \<lparr>ollama_embed = (\<lambda>k text. Inr [[1, 0]]),
             distance = (\<lambda>a b. 0),
             other_filter = (\<lambda>flt. Inl (BadFilter flt)),
             iso_now = lit ''2026-01-01T00:00:00.000Z'',
             date_now = lit ''1767225600000'',
             random36 = lit ''0.4fzyo82mvyr''\<rparr>"

text \<open>A service whose first two calls reject with an \<open>Error\<close> and whose third answers.\<close>

definition env_third :: env where
  "env_third = env_ok\<lparr>ollama_embed :=
     (\<lambda>k text. if k < 2 then Inl (ErrorInstance (lit ''fetch failed'')) else Inr [[1, 0]])\<rparr>"

text \<open>A service whose every call rejects with an \<open>Error\<close>.\<close>

definition env_down :: env where
  "env_down = env_ok\<lparr>ollama_embed := (\<lambda>k text. Inl (ErrorInstance (lit ''fetch failed'')))\<rparr>"

text \<open>A service whose every call rejects with the string \<open>boom\<close>, which is no \<open>Error\<close>.\<close>

definition env_boom :: env where
  "env_boom = env_ok\<lparr>ollama_embed := (\<lambda>k text. Inl (NonError (lit ''boom'')))\<rparr>"

text \<open>An identifier made of a backslash, a double quote and the text \<open> OR 1=1 --\<close>.\<close>

definition quote_breaker :: jsstring where
  "quote_breaker = [BACKSLASH, DQUOTE] @ lit '' OR 1=1 --''"

text \<open>Content of three spaces, and content of 50001 letters.\<close>

definition blank :: jsstring where
  "blank = lit ''   ''"

definition oversized :: jsstring where
  "oversized = replicate 50001 0x61"

definition fact_A :: jsstring where
  "fact_A = lit ''fact A''"

definition fact_B :: jsstring where
  "fact_B = lit ''fact B''"

text \<open>Content that is accepted as it is.\<close>

definition hello :: jsstring where
  "hello = lit ''hello''"

text \<open>Two records of dimension 3, and a client just constructed on a database that
  holds them.\<close>

definition row_a :: MemoryRecord where
  "row_a = \<lparr>id_rec = lit ''a'', content = lit ''alpha'', vector = [1, 0, 0],
            metadata = Stringified [], createdAt = lit ''2025-12-31T00:00:00.000Z'',
            updatedAt = lit ''2025-12-31T00:00:00.000Z''\<rparr>"

definition row_b :: MemoryRecord where
  "row_b = \<lparr>id_rec = lit ''b'', content = lit ''beta'', vector = [0, 1, 0],
            metadata = Malformed (lit ''{''), createdAt = lit ''2025-12-31T00:00:00.000Z'',
            updatedAt = lit ''2025-12-31T00:00:00.000Z''\<rparr>"

definition stocked :: state where
  "stocked = fresh\<lparr>disk := Some \<lparr>dim = 3, rows = [row_a, row_b]\<rparr>\<rparr>"





section \<open>Strings and filters\<close>

lemmas chars = DQUOTE_def SQUOTE_def BACKSLASH_def lit_def

lemma trim_id:
  assumes "s \<noteq> []" and "\<not> is_js_whitespace (hd s)" and "\<not> is_js_whitespace (last s)"
  shows "trim s = s"
proof -
  from assms(1,2) have "dropWhile is_js_whitespace s = s"
    by (cases s) simp_all
  moreover from assms(1,3) have "dropWhile is_js_whitespace (rev s) = rev s"
    by (cases "rev s") (simp_all add: last_rev [symmetric] del: last_rev)
  ultimately show ?thesis by (simp add: trim_def)
qed

lemma trim_blank: "trim blank = []"
  by (simp add: blank_def trim_def lit_def is_js_whitespace_def)

lemma trim_oversized: "trim oversized = oversized"
  by (rule trim_id) (simp_all add: oversized_def is_js_whitespace_def)

lemma trim_hello: "trim hello = hello"
  by (rule trim_id) (simp_all add: hello_def lit_def is_js_whitespace_def)

lemma hello_accepted: "trim hello \<noteq> []" "length (trim hello) \<le> MAX_CONTENT_LENGTH"
  by (simp_all add: trim_hello) (simp_all add: hello_def lit_def MAX_CONTENT_LENGTH_def)




text \<open>\<open>sanitizeId\<close> changes the quotes of an identifier and nothing else.\<close>

lemma sanitizeId_no_quote:
  "DQUOTE \<notin> set i \<Longrightarrow> SQUOTE \<notin> set i \<Longrightarrow> sanitizeId i = i"
  by (induction i) (auto simp: sanitizeId_def replace_all_def)

lemma sanitizeId_plain: "plain_id i \<Longrightarrow> sanitizeId i = i"
  by (simp add: plain_id_def sanitizeId_no_quote)

lemma read_literal_no_quote:
  "DQUOTE \<notin> set v \<Longrightarrow> read_literal (v @ DQUOTE # rest) = Some (v, rest)"
  by (induction v) auto

text \<open>The filter of a plain identifier is read as the equality with that
  identifier.\<close>

lemma read_id_filter_plain:
  "plain_id i \<Longrightarrow> read_id_filter (id_filter (sanitizeId i)) = Some i"
  using read_literal_no_quote [of i "[]"]
  by (simp add: sanitizeId_plain) (simp add: plain_id_def read_id_filter_def id_filter_def lit_def)

lemma read_filter_plain:
  "plain_id i \<Longrightarrow> read_filter e (id_filter (sanitizeId i)) = Inr (\<lambda>r. id_rec r = i)"
  by (simp add: read_filter_def read_id_filter_plain)

text \<open>
  An identifier with a backslash and no quote is read back as it is. For one with a
  single quote the filter compares with another text, the one with the backslash that
  \<open>sanitizeId\<close> adds; for one with a double quote the literal ends at that quote
  and the filter is no comparison with a value.
\<close>

lemma read_id_filter_backslash:
  "read_id_filter (id_filter (sanitizeId (lit ''a'' @ [BACKSLASH] @ lit ''b''))) =
     Some (lit ''a'' @ [BACKSLASH] @ lit ''b'')"
  by (simp add: sanitizeId_def replace_all_def id_filter_def read_id_filter_def chars)

lemma read_id_filter_single_quote:
  "read_id_filter (id_filter (sanitizeId (lit ''it'' @ [SQUOTE] @ lit ''s''))) =
     Some (lit ''it'' @ [BACKSLASH, SQUOTE] @ lit ''s'')"
  by (simp add: sanitizeId_def replace_all_def id_filter_def read_id_filter_def chars)

lemma read_id_filter_double_quote:
  "read_id_filter (id_filter (sanitizeId (lit ''a'' @ [DQUOTE] @ lit ''b''))) = None"
  by (simp add: sanitizeId_def replace_all_def id_filter_def read_id_filter_def chars)

lemma plain_init: "plain_id (lit ''__init__'')"
  by (simp add: plain_id_def chars)


lemma read_init_filter:
  "read_filter e (id_filter (sanitizeId (lit ''__init__''))) = Inr (\<lambda>r. id_rec r = lit ''__init__'')"
  by (rule read_filter_plain) (rule plain_init)

section \<open>The retry loop, unrolled\<close>

declare embed_loop.simps [simp del]

lemma embed_unrolled:
  "embed e text s =
     (case ollama_embed e (embed_calls s) text of
        Inr v \<Rightarrow> (Inr (first v), s\<lparr>embed_calls := embed_calls s + 1\<rparr>)
      | Inl t1 \<Rightarrow>
          (case ollama_embed e (embed_calls s + 1) text of
             Inr v \<Rightarrow>
               (Inr (first v),
                s\<lparr>embed_calls := embed_calls s + 2,
                  timers := timers s @ [EMBED_RETRY_DELAY_MS * 1]\<rparr>)
           | Inl t2 \<Rightarrow>
               (case ollama_embed e (embed_calls s + 2) text of
                  Inr v \<Rightarrow>
                    (Inr (first v),
                     s\<lparr>embed_calls := embed_calls s + 3,
                       timers := timers s @ [EMBED_RETRY_DELAY_MS * 1, EMBED_RETRY_DELAY_MS * 2]\<rparr>)
                | Inl t3 \<Rightarrow>
                    (Inl (as_Error t3),
                     s\<lparr>embed_calls := embed_calls s + 3,
                       timers := timers s @ [EMBED_RETRY_DELAY_MS * 1, EMBED_RETRY_DELAY_MS * 2]\<rparr>))))"
  unfolding embed_def
  apply (subst embed_loop.simps)
  apply (subst embed_loop.simps)
  apply (subst embed_loop.simps)
  apply (subst embed_loop.simps)
  apply (simp add: EMBED_RETRY_COUNT_def split: sum.splits)
  done

text \<open>\<open>embed\<close> changes the call counter and the timers, and nothing else.\<close>

lemma embed_frame:
  "(snd (embed e text s))\<lparr>embed_calls := 0, timers := []\<rparr> = s\<lparr>embed_calls := 0, timers := []\<rparr>"
  unfolding embed_unrolled by (simp split: sum.splits)

lemma embed_fields:
  "db (snd (embed e text s)) = db s"
  "table (snd (embed e text s)) = table s"
  "initPromise (snd (embed e text s)) = initPromise s"
  "disk (snd (embed e text s)) = disk s"
  "profile_file (snd (embed e text s)) = profile_file s"
  "store_log (snd (embed e text s)) = store_log s"
  "profile_writes (snd (embed e text s)) = profile_writes s"
  using arg_cong [OF embed_frame, where f = db]
        arg_cong [OF embed_frame, where f = table]
        arg_cong [OF embed_frame, where f = initPromise]
        arg_cong [OF embed_frame, where f = disk]
        arg_cong [OF embed_frame, where f = profile_file]
        arg_cong [OF embed_frame, where f = store_log]
        arg_cong [OF embed_frame, where f = profile_writes]
  by simp_all

lemma as_Error_kind: "\<not> is_validation_error (as_Error t)"
  by (cases t) simp_all

lemma embed_error_kind: "embed e text s = (Inl err, s') \<Longrightarrow> \<not> is_validation_error err"
  unfolding embed_unrolled
  by (auto split: sum.splits simp: as_Error_kind)

lemma embed_first_success:
  assumes "k < EMBED_RETRY_COUNT"
    and "\<forall>j<k. isl (ollama_embed e (embed_calls s + j) text)"
    and "ollama_embed e (embed_calls s + k) text = Inr v"
  shows "embed e text s =
           (Inr (first v),
            s\<lparr>embed_calls := embed_calls s + k + 1,
              timers := timers s @ map (\<lambda>a. EMBED_RETRY_DELAY_MS * a) [1..<k + 1]\<rparr>)"
proof -
  from assms(1) have "k = 0 \<or> k = 1 \<or> k = 2"
    unfolding EMBED_RETRY_COUNT_def by arith
  then consider "k = 0" | "k = 1" | "k = 2" by blast
  then show ?thesis
  proof cases
    case 1
    with assms(3) show ?thesis by (simp add: embed_unrolled)
  next
    case 2
    have "isl (ollama_embed e (embed_calls s + 0) text)"
      using 2 assms(2) [rule_format, of 0] by simp
    with 2 assms(3) show ?thesis
      by (auto simp: embed_unrolled isl_def)
  next
    case 3
    have "isl (ollama_embed e (embed_calls s + 0) text)"
      and "isl (ollama_embed e (embed_calls s + 1) text)"
      using 3 assms(2) [rule_format, of 0] assms(2) [rule_format, of 1] by simp_all
    with 3 assms(3) show ?thesis
      by (auto simp: embed_unrolled isl_def upt_rec numeral_2_eq_2)
  qed
qed

lemma embed_all_failed:
  assumes "\<forall>j<EMBED_RETRY_COUNT. isl (ollama_embed e (embed_calls s + j) text)"
    and "ollama_embed e (embed_calls s + (EMBED_RETRY_COUNT - 1)) text = Inl t"
  shows "embed e text s =
           (Inl (case t of ErrorInstance m \<Rightarrow> Thrown t | NonError v \<Rightarrow> Wrapped v),
            s\<lparr>embed_calls := embed_calls s + EMBED_RETRY_COUNT,
              timers := timers s @ map (\<lambda>a. EMBED_RETRY_DELAY_MS * a) [1..<EMBED_RETRY_COUNT]\<rparr>)"
proof -
  have "isl (ollama_embed e (embed_calls s + 0) text)"
    and "isl (ollama_embed e (embed_calls s + 1) text)"
    using assms(1) [rule_format, of 0] assms(1) [rule_format, of 1]
    by (simp_all add: EMBED_RETRY_COUNT_def)
  with assms(2) show ?thesis
    by (cases t) (auto simp: embed_unrolled isl_def EMBED_RETRY_COUNT_def upt_rec numeral_2_eq_2 numeral_3_eq_3)
qed

lemma embed_calls_bound:
  "embed_calls (snd (embed e text s)) \<le> embed_calls s + EMBED_RETRY_COUNT"
  by (simp add: embed_unrolled EMBED_RETRY_COUNT_def split: sum.splits)

lemma embed_env_ok:
  "embed env_ok text s = (Inr (Some [1, 0]), s\<lparr>embed_calls := embed_calls s + 1\<rparr>)"
  by (simp add: embed_unrolled env_ok_def)

section \<open>Initialization\<close>

lemma ensureInitialized_simps:
  "disk (ensureInitialized s) = disk s"
  "embed_calls (ensureInitialized s) = embed_calls s"
  "timers (ensureInitialized s) = timers s"
  "profile_file (ensureInitialized s) = profile_file s"
  "profile_writes (ensureInitialized s) = profile_writes s"
  "initPromise (ensureInitialized s)"
  by (simp_all add: ensureInitialized_def doInit_def log_call_def Let_def)

lemma ensureInitialized_idem: "initPromise s \<Longrightarrow> ensureInitialized s = s"
  by (simp add: ensureInitialized_def)

lemma ensureInitialized_agree:
  "handles_agree s \<Longrightarrow> handles_agree (ensureInitialized s)"
  "handles_agree s \<Longrightarrow> db (ensureInitialized s)"
  "handles_agree s \<Longrightarrow> table (ensureInitialized s) \<longleftrightarrow> disk s \<noteq> None"
  by (auto simp: handles_agree_def ensureInitialized_def doInit_def log_call_def Let_def)

lemma ensureInitialized_log:
  "handles_agree s \<Longrightarrow> disk s = None \<Longrightarrow>
     store_log (ensureInitialized s) =
       store_log s @ (if initPromise s then [] else [Connect, TableNames])"
  by (simp add: ensureInitialized_def doInit_def log_call_def Let_def)

lemma handles_agree_fresh: "handles_agree fresh"
  by (simp add: handles_agree_def fresh_def)

lemma ensureInitialized_fresh:
  "ensureInitialized fresh =
     fresh\<lparr>db := True, initPromise := True, store_log := [Connect, TableNames]\<rparr>"
  by (simp add: ensureInitialized_def doInit_def log_call_def Let_def fresh_def)

lemma handles_agree_stocked: "handles_agree stocked"
  by (simp add: handles_agree_def stocked_def fresh_def)

section \<open>The table\<close>

lemma table_delete_disk:
  "disk s = Some t \<Longrightarrow>
     disk (snd (table_delete e flt s)) =
       Some (t\<lparr>rows := (case read_filter e flt of
                          Inl err \<Rightarrow> rows t
                        | Inr matches \<Rightarrow> filter (\<lambda>r. \<not> matches r) (rows t))\<rparr>)"
  by (simp add: table_delete_def log_call_def Let_def split: sum.splits)


lemma table_delete_fields:
  "db (snd (table_delete e flt s)) = db s"
  "table (snd (table_delete e flt s)) = table s"
  "initPromise (snd (table_delete e flt s)) = initPromise s"
  "embed_calls (snd (table_delete e flt s)) = embed_calls s"
  by (simp_all add: table_delete_def log_call_def Let_def split: option.splits sum.splits)

lemma table_delete_error_kind:
  "table_delete e flt s = (Inl err, s') \<Longrightarrow> \<not> is_validation_error err"
  by (auto simp: table_delete_def Let_def split: option.splits sum.splits)

lemma table_add_ok:
  "disk s = Some t \<Longrightarrow> length (vector r) = dim t \<Longrightarrow>
     fst (table_add r s) = Inr () \<and> disk (snd (table_add r s)) = Some (t\<lparr>rows := rows t @ [r]\<rparr>)"
  by (simp add: table_add_def log_call_def Let_def)

lemma table_add_fields:
  "db (snd (table_add r s)) = db s"
  "table (snd (table_add r s)) = table s"
  "initPromise (snd (table_add r s)) = initPromise s"
  "embed_calls (snd (table_add r s)) = embed_calls s"
  by (simp_all add: table_add_def log_call_def Let_def split: option.splits)

lemma table_add_error_kind:
  "table_add r s = (Inl err, s') \<Longrightarrow> \<not> is_validation_error err"
  by (auto simp: table_add_def Let_def split: option.splits if_splits)

lemma ensureTable_cached: "table s \<Longrightarrow> ensureTable e n s = (Inr (), s)"
  by (simp add: ensureTable_def)

lemma ensureTable_creates:
  assumes "\<not> table s" and "db s"
  shows "fst (ensureTable e n s) = Inr ()"
    and "disk (snd (ensureTable e n s)) = Some \<lparr>dim = n, rows = []\<rparr>"
    and "table (snd (ensureTable e n s))"
    and "db (snd (ensureTable e n s))"
    and "initPromise (snd (ensureTable e n s)) = initPromise s"
  using assms
  by (simp_all add: ensureTable_def table_delete_def db_createTable_def log_call_def Let_def
      read_init_filter emptyRecord_def)

lemma ensureTable_fields:
  "db s \<Longrightarrow> db (snd (ensureTable e n s))"
  "db s \<Longrightarrow> table (snd (ensureTable e n s))"
  "initPromise (snd (ensureTable e n s)) = initPromise s"
  by (simp_all add: ensureTable_def table_delete_fields db_createTable_def log_call_def)

lemma ensureTable_error_kind:
  "ensureTable e n s = (Inl err, s') \<Longrightarrow> \<not> is_validation_error err"
  by (auto simp: ensureTable_def split: if_splits dest: table_delete_error_kind)






section \<open>Adding a memory\<close>

lemma addMemory_empty:
  "trim c = [] \<Longrightarrow> addMemory e c md cid s = (Inl EmptyContent, ensureInitialized s)"
  by (simp add: addMemory_def Let_def)

lemma addMemory_too_large:
  "trim c \<noteq> [] \<Longrightarrow> length (trim c) > MAX_CONTENT_LENGTH \<Longrightarrow>
     addMemory e c md cid s =
       (Inl (ContentTooLarge (length (trim c)) MAX_CONTENT_LENGTH), ensureInitialized s)"
  by (simp add: addMemory_def Let_def)

lemma addMemory_accepted_error_kind:
  assumes "trim c \<noteq> []" and "length (trim c) \<le> MAX_CONTENT_LENGTH"
    and "addMemory e c md cid s = (Inl err, s')"
  shows "\<not> is_validation_error err"
  using assms
  by (auto simp: addMemory_def Let_def
      split: prod.splits sum.splits option.splits
      dest: embed_error_kind ensureTable_error_kind table_add_error_kind)

lemma addMemory_after_embed:
  assumes "trim c \<noteq> []" and "length (trim c) \<le> MAX_CONTENT_LENGTH"
    and "embed e (trim c) (ensureInitialized s) = (Inr (Some vec), s2)"
    and "fst (ensureTable e (length vec) s2) = Inr ()"
    and "disk (snd (ensureTable e (length vec) s2)) = Some t"
    and "dim t = length vec"
  shows "fst (addMemory e c md cid s) = Inr (id_rec (new_record e c md cid vec))"
    and "disk (snd (addMemory e c md cid s)) =
           Some (t\<lparr>rows := rows_after_delete e cid (rows t) @ [new_record e c md cid vec]\<rparr>)"
    and "db (snd (addMemory e c md cid s)) = db (snd (ensureTable e (length vec) s2))"
    and "table (snd (addMemory e c md cid s)) = table (snd (ensureTable e (length vec) s2))"
    and "initPromise (snd (addMemory e c md cid s)) = initPromise (snd (ensureTable e (length vec) s2))"
proof -
  obtain s3 where s3: "ensureTable e (length vec) s2 = (Inr (), s3)" and d3: "disk s3 = Some t"
    using assms(4,5) by (cases "ensureTable e (length vec) s2") auto
  let ?s4 = "case cid of
               None \<Rightarrow> s3
             | Some c \<Rightarrow>
                 (if c \<noteq> [] then
                    (case table_delete e (id_filter (sanitizeId c)) s3 of
                       (Inl err, s') \<Rightarrow> s'
                     | (Inr u', s') \<Rightarrow> s')
                  else s3)"
  have s4: "?s4 = (case cid of None \<Rightarrow> s3 | Some c \<Rightarrow> if c \<noteq> [] then snd (table_delete e (id_filter (sanitizeId c)) s3) else s3)"
    by (simp split: option.splits prod.splits sum.splits)
  have d4: "disk ?s4 = Some (t\<lparr>rows := rows_after_delete e cid (rows t)\<rparr>)"
    unfolding s4 using d3 table_delete_disk [OF d3]
    by (simp add: rows_after_delete_def split: option.splits)
  have v: "length (vector (new_record e c md cid vec)) = dim (t\<lparr>rows := rows_after_delete e cid (rows t)\<rparr>)"
    using assms(6) by (simp add: new_record_def)
  note add = table_add_ok [OF d4 v]
  have unfold: "addMemory e c md cid s =
      (case table_add (new_record e c md cid vec) ?s4 of
         (Inl err, s5) \<Rightarrow> (Inl err, s5)
       | (Inr u', s5) \<Rightarrow> (Inr (case cid of Some i \<Rightarrow> i | None \<Rightarrow> generateId e), s5))"
    using assms(1,2,3) s3
    by (simp add: addMemory_def Let_def new_record_def not_less [symmetric])
  obtain s5 where s5: "table_add (new_record e c md cid vec) ?s4 = (Inr (), s5)"
    and d5: "disk s5 = Some (t\<lparr>rows := rows_after_delete e cid (rows t) @ [new_record e c md cid vec]\<rparr>)"
    using add by (cases "table_add (new_record e c md cid vec) ?s4") auto
  have r: "addMemory e c md cid s = (Inr (case cid of Some i \<Rightarrow> i | None \<Rightarrow> generateId e), s5)"
    unfolding unfold s5 by simp
  show "fst (addMemory e c md cid s) = Inr (id_rec (new_record e c md cid vec))"
    unfolding r by (simp add: new_record_def)
  show "disk (snd (addMemory e c md cid s)) =
           Some (t\<lparr>rows := rows_after_delete e cid (rows t) @ [new_record e c md cid vec]\<rparr>)"
    unfolding r using d5 by simp
  have f4: "db ?s4 = db s3" "table ?s4 = table s3" "initPromise ?s4 = initPromise s3"
    unfolding s4 by (simp_all add: table_delete_fields split: option.splits)
  have f5: "db s5 = db ?s4" "table s5 = table ?s4" "initPromise s5 = initPromise ?s4"
    using table_add_fields [of "new_record e c md cid vec" ?s4] s5 by simp_all
  show "db (snd (addMemory e c md cid s)) = db (snd (ensureTable e (length vec) s2))"
    and "table (snd (addMemory e c md cid s)) = table (snd (ensureTable e (length vec) s2))"
    and "initPromise (snd (addMemory e c md cid s)) = initPromise (snd (ensureTable e (length vec) s2))"
    unfolding r s3 using f4 f5 by simp_all
qed

text \<open>
  \<open>addMemory\<close> with accepted content and a successful embedding, on a client whose
  handles agree with the store and whose table, if there is one, has the vector's
  dimension.
\<close>

lemma addMemory_ok:
  assumes "handles_agree s"
    and "trim c \<noteq> []" and "length (trim c) \<le> MAX_CONTENT_LENGTH"
    and "embed e (trim c) (ensureInitialized s) = (Inr (Some vec), s2)"
    and "case disk s of Some t \<Rightarrow> dim t = length vec | None \<Rightarrow> True"
  shows "fst (addMemory e c md cid s) = Inr (id_rec (new_record e c md cid vec))"
    and "disk (snd (addMemory e c md cid s)) =
           Some ((case disk s of Some t \<Rightarrow> t | None \<Rightarrow> \<lparr>dim = length vec, rows = []\<rparr>)
                 \<lparr>rows := rows_after_delete e cid
                            (case disk s of Some t \<Rightarrow> rows t | None \<Rightarrow> [])
                          @ [new_record e c md cid vec]\<rparr>)"
    and "handles_agree (snd (addMemory e c md cid s))"
    and "initPromise (snd (addMemory e c md cid s))"
    and "table (snd (addMemory e c md cid s))"
proof -
  let ?t = "case disk s of Some t \<Rightarrow> t | None \<Rightarrow> \<lparr>dim = length vec, rows = []\<rparr>"
  have s2: "db s2" "initPromise s2" "table s2 \<longleftrightarrow> disk s \<noteq> None" "disk s2 = disk s"
    using embed_fields [of e "trim c" "ensureInitialized s"] assms(1,4)
    by (simp_all add: ensureInitialized_simps ensureInitialized_agree)
  have t3: "fst (ensureTable e (length vec) s2) = Inr ()"
    "disk (snd (ensureTable e (length vec) s2)) = Some ?t"
  proof -
    show "fst (ensureTable e (length vec) s2) = Inr ()"
      using s2 ensureTable_creates(1) [of s2 e "length vec"] ensureTable_cached [of s2 e "length vec"]
      by (cases "table s2") simp_all
    show "disk (snd (ensureTable e (length vec) s2)) = Some ?t"
      using s2 ensureTable_creates(2) [of s2 e "length vec"] ensureTable_cached [of s2 e "length vec"]
      by (cases "table s2") auto
  qed
  have d: "dim ?t = length vec"
    using assms(5) by (simp split: option.splits)
  note r = addMemory_after_embed [OF assms(2,3,4) t3 d, of md cid]
  have f3: "db (snd (ensureTable e (length vec) s2))" "table (snd (ensureTable e (length vec) s2))"
    "initPromise (snd (ensureTable e (length vec) s2))"
    using ensureTable_fields [where s = s2 and e = e and n = "length vec"] s2 by simp_all
  show "fst (addMemory e c md cid s) = Inr (id_rec (new_record e c md cid vec))"
    by (rule r(1))
  show "disk (snd (addMemory e c md cid s)) =
           Some (?t\<lparr>rows := rows_after_delete e cid
                            (case disk s of Some t \<Rightarrow> rows t | None \<Rightarrow> [])
                          @ [new_record e c md cid vec]\<rparr>)"
    using r(2) by (simp split: option.splits)
  show "handles_agree (snd (addMemory e c md cid s))"
    using r(2,3,4,5) f3 by (simp add: handles_agree_def)
  show "initPromise (snd (addMemory e c md cid s))"
    using r(5) f3 by simp
  show "table (snd (addMemory e c md cid s))"
    using r(4) f3 by simp
qed

text \<open>
  The upsert, for a non-empty \<open>customId\<close> without a quote and without a backslash:
  the records of that id are replaced by the new one, which is then the only record of
  that id.
\<close>

lemma addMemory_upsert:
  assumes "handles_agree s"
    and "trim c \<noteq> []" and "length (trim c) \<le> MAX_CONTENT_LENGTH"
    and "embed e (trim c) (ensureInitialized s) = (Inr (Some vec), s2)"
    and "disk s = Some t" and "dim t = length vec"
    and "i \<noteq> []" and "plain_id i"
  shows "fst (addMemory e c md (Some i) s) = Inr i"
    and "disk (snd (addMemory e c md (Some i) s)) =
           Some (t\<lparr>rows := filter (\<lambda>r. id_rec r \<noteq> i) (rows t) @ [new_record e c md (Some i) vec]\<rparr>)"
    and "\<exists>t'. disk (snd (addMemory e c md (Some i) s)) = Some t'
           \<and> filter (\<lambda>r. id_rec r = i) (rows t') = [new_record e c md (Some i) vec]"
proof -
  have dm: "case disk s of Some t \<Rightarrow> dim t = length vec | None \<Rightarrow> True"
    using assms(5,6) by simp
  note r = addMemory_ok [OF assms(1,2,3,4) dm, of md "Some i"]
  show "fst (addMemory e c md (Some i) s) = Inr i"
    using r(1) by (simp add: new_record_def)
  show d: "disk (snd (addMemory e c md (Some i) s)) =
           Some (t\<lparr>rows := filter (\<lambda>r. id_rec r \<noteq> i) (rows t) @ [new_record e c md (Some i) vec]\<rparr>)"
    using r(2) assms(5,7,8) by (simp add: rows_after_delete_def read_filter_plain)
  have "filter (\<lambda>r. id_rec r = i) (filter (\<lambda>r. id_rec r \<noteq> i) (rows t)) = []"
    by (simp add: filter_empty_conv)
  then show "\<exists>t'. disk (snd (addMemory e c md (Some i) s)) = Some t'
           \<and> filter (\<lambda>r. id_rec r = i) (rows t') = [new_record e c md (Some i) vec]"
    unfolding d by (simp add: new_record_def)
qed

text \<open>Without a \<open>customId\<close> the record is appended under the generated id.\<close>

lemma addMemory_generated:
  assumes "handles_agree s"
    and "trim c \<noteq> []" and "length (trim c) \<le> MAX_CONTENT_LENGTH"
    and "embed e (trim c) (ensureInitialized s) = (Inr (Some vec), s2)"
    and "disk s = Some t" and "dim t = length vec"
  shows "fst (addMemory e c md None s) = Inr (generateId e)"
    and "disk (snd (addMemory e c md None s)) =
           Some (t\<lparr>rows := rows t @ [new_record e c md None vec]\<rparr>)"
proof -
  have dm: "case disk s of Some t \<Rightarrow> dim t = length vec | None \<Rightarrow> True"
    using assms(5,6) by simp
  note r = addMemory_ok [OF assms(1,2,3,4) dm, of md None]
  show "fst (addMemory e c md None s) = Inr (generateId e)"
    using r(1) by (simp add: new_record_def)
  show "disk (snd (addMemory e c md None s)) =
           Some (t\<lparr>rows := rows t @ [new_record e c md None vec]\<rparr>)"
    using r(2) assms(5) by (simp add: rows_after_delete_def)
qed

section \<open>Searching, forgetting and wiping\<close>

lemma search_no_table:
  "handles_agree s \<Longrightarrow> disk s = None \<Longrightarrow> search e query limit s = (Inr [], ensureInitialized s)"
  by (simp add: search_def Let_def ensureInitialized_agree)







lemma wipe_ok:
  assumes "handles_agree s" and "disk s = Some t"
  shows "fst (wipeAllMemories s) = Inr (length (rows t))"
    and "store_log (snd (wipeAllMemories s)) = store_log (ensureInitialized s) @ [CountRows, DropTable]"
    and "disk (snd (wipeAllMemories s)) = None"
    and "initPromise (snd (wipeAllMemories s))"
    and "handles_agree (snd (wipeAllMemories s))"
proof -
  have i: "table (ensureInitialized s)" "db (ensureInitialized s)" "disk (ensureInitialized s) = Some t"
    "initPromise (ensureInitialized s)"
    using assms by (simp_all add: ensureInitialized_agree ensureInitialized_simps)
  have w: "wipeAllMemories s =
      (Inr (length (rows t)),
       (ensureInitialized s)\<lparr>store_log := store_log (ensureInitialized s) @ [CountRows, DropTable],
                              disk := None, table := False\<rparr>)"
    using i by (simp add: wipeAllMemories_def Let_def table_countRows_def db_dropTable_def log_call_def)
  show "fst (wipeAllMemories s) = Inr (length (rows t))"
    and "store_log (snd (wipeAllMemories s)) = store_log (ensureInitialized s) @ [CountRows, DropTable]"
    and "disk (snd (wipeAllMemories s)) = None"
    and "initPromise (snd (wipeAllMemories s))"
    and "handles_agree (snd (wipeAllMemories s))"
    unfolding w using i by (simp_all add: handles_agree_def)
qed

section \<open>The profile\<close>

lemma push_missing_eq: "push_missing existing fs acc = acc @ filter (\<lambda>f. f \<notin> existing) fs"
  by (induction fs arbitrary: acc) simp_all

text \<open>
  On a stored profile with a stable list, the new stable list is the stored one followed
  by the given facts that the stored one does not have, each as often as it is given;
  the dynamic list is the first 20 of the given list, or the stored one; the date is
  stamped and the file written once.
\<close>

lemma updateProfile_stored:
  assumes "profile_file s = Parsed p" and "static p = Some stored"
  shows "updateProfile e staticFacts dynamicFacts s =
           (Inr (),
            (ensureInitialized s)
              \<lparr>profile_file :=
                 Parsed (p\<lparr>static := Some (case staticFacts of
                                            Some fs \<Rightarrow> stored @ filter (\<lambda>f. f \<notin> set stored) fs
                                          | None \<Rightarrow> stored),
                           dynamic := (case dynamicFacts of
                                         Some fs \<Rightarrow> Some (take 20 fs)
                                       | None \<Rightarrow> dynamic p),
                           lastUpdated := Some (iso_now e)\<rparr>),
               profile_writes := profile_writes s + 1\<rparr>)"
  using assms
  by (simp add: updateProfile_def Let_def writeFile_def load_profile_def merge_static_def
      push_missing_eq slice_def ensureInitialized_simps split: option.splits)

text \<open>Without a profile file, the given facts are stored as they are given.\<close>

lemma updateProfile_new:
  assumes "profile_file s = NoProfile"
  shows "updateProfile e staticFacts dynamicFacts s =
           (Inr (),
            (ensureInitialized s)
              \<lparr>profile_file :=
                 Parsed \<lparr>static = Some (case staticFacts of Some fs \<Rightarrow> fs | None \<Rightarrow> []),
                         dynamic = Some (case dynamicFacts of Some fs \<Rightarrow> take 20 fs | None \<Rightarrow> []),
                         lastUpdated = Some (iso_now e)\<rparr>,
               profile_writes := profile_writes s + 1\<rparr>)"
  using assms
  by (simp add: updateProfile_def Let_def writeFile_def load_profile_def merge_static_def
      push_missing_eq slice_def ensureInitialized_simps split: option.splits)

text \<open>
  On a stored object without a stable list, a call with a fact to add throws and leaves
  the file as it was; so does every call on a file that holds no object.
\<close>

lemma updateProfile_no_static:
  assumes "profile_file s = Parsed p" and "static p = None"
  shows "updateProfile e (Some (f # fs)) dynamicFacts s = (Inl TypeError, ensureInitialized s)"
  using assms
  by (simp add: updateProfile_def Let_def load_profile_def merge_static_def ensureInitialized_simps)

lemma updateProfile_not_object:
  assumes "profile_file s = NotAnObject"
  shows "updateProfile e staticFacts dynamicFacts s = (Inl TypeError, ensureInitialized s)"
  using assms
  by (simp add: updateProfile_def Let_def load_profile_def ensureInitialized_simps)

lemma updateProfile_fields:
  "disk (snd (updateProfile e staticFacts dynamicFacts s)) = disk s"
  "embed_calls (snd (updateProfile e staticFacts dynamicFacts s)) = embed_calls s"
  by (simp_all add: updateProfile_def Let_def writeFile_def ensureInitialized_simps
      split: sum.splits option.splits)

section \<open>The handles stay in agreement\<close>

text \<open>Every operation keeps the handles in agreement with the store, whatever its outcome.\<close>

lemma embed_agree:
  "embed e text s = (x, s') \<Longrightarrow> handles_agree s' = handles_agree s"
  "embed e text s = (x, s') \<Longrightarrow> initPromise s' = initPromise s"
  using embed_fields [of e "text" s] by (simp_all add: handles_agree_def)

lemma table_delete_agree:
  "table_delete e flt s = (x, s') \<Longrightarrow> handles_agree s' = handles_agree s"
  by (auto simp: table_delete_def log_call_def Let_def handles_agree_def
      split: option.splits sum.splits)

lemma table_add_agree:
  "table_add r s = (x, s') \<Longrightarrow> handles_agree s' = handles_agree s"
  by (auto simp: table_add_def log_call_def Let_def handles_agree_def split: option.splits if_splits)

lemma table_vectorSearch_agree:
  "table_vectorSearch e qv n s = (x, s') \<Longrightarrow> handles_agree s' = handles_agree s"
  by (auto simp: table_vectorSearch_def log_call_def Let_def handles_agree_def
      split: option.splits if_splits)

lemma ensureTable_agree:
  "ensureTable e n s = (x, s') \<Longrightarrow> handles_agree s \<Longrightarrow> initPromise s \<Longrightarrow> handles_agree s'"
  by (auto simp: ensureTable_def table_delete_def db_createTable_def log_call_def Let_def
      handles_agree_def split: if_splits option.splits sum.splits)

lemma search_agree: "handles_agree s \<Longrightarrow> handles_agree (snd (search e query limit s))"
  by (auto simp: search_def Let_def ensureInitialized_agree embed_agree table_vectorSearch_agree
      split: prod.splits sum.splits)

lemma deleteMemory_agree:
  "deleteMemory e i s = (x, s') \<Longrightarrow> handles_agree s \<Longrightarrow> handles_agree s'"
  by (auto simp: deleteMemory_def Let_def ensureInitialized_agree split: if_splits
      dest: table_delete_agree)

lemma forgetByQuery_agree: "handles_agree s \<Longrightarrow> handles_agree (snd (forgetByQuery e query s))"
proof -
  assume a: "handles_agree s"
  obtain r s1 where s: "search e query (Some 5) s = (r, s1)" by (cases "search e query (Some 5) s")
  with a have a1: "handles_agree s1" using search_agree [of s e query "Some 5"] by simp
  from s a1 show ?thesis
    by (auto simp: forgetByQuery_def Let_def split: sum.splits list.splits prod.splits
        dest: deleteMemory_agree)
qed

lemma wipeAllMemories_agree: "handles_agree s \<Longrightarrow> handles_agree (snd (wipeAllMemories s))"
proof (cases "disk s")
  case None
  assume "handles_agree s"
  with None show ?thesis
    by (simp add: wipeAllMemories_def Let_def ensureInitialized_agree)
next
  case (Some t)
  assume "handles_agree s"
  then show ?thesis using Some by (rule wipe_ok(5))
qed

lemma updateProfile_agree: "handles_agree s \<Longrightarrow> handles_agree (snd (updateProfile e st dy s))"
proof -
  assume "handles_agree s"
  then have "handles_agree (ensureInitialized s)" by (rule ensureInitialized_agree)
  then show ?thesis
    by (simp add: updateProfile_def Let_def writeFile_def handles_agree_def
        split: sum.splits option.splits)
qed

lemma addMemory_agree: "handles_agree s \<Longrightarrow> handles_agree (snd (addMemory e c md cid s))"
proof -
  assume a: "handles_agree s"
  let ?s1 = "ensureInitialized s"
  have a1: "handles_agree ?s1" "initPromise ?s1"
    using a by (simp_all add: ensureInitialized_agree ensureInitialized_simps)
  show ?thesis
  proof (cases "trim c = [] \<or> length (trim c) > MAX_CONTENT_LENGTH")
    case True
    with a1 show ?thesis by (auto simp: addMemory_def Let_def)
  next
    case False
    obtain rv s2 where e2: "embed e (trim c) ?s1 = (rv, s2)" by (cases "embed e (trim c) ?s1")
    have a2: "handles_agree s2" "initPromise s2"
      using embed_agree [OF e2] a1 by simp_all
    show ?thesis
    proof (cases rv)
      case (Inl err)
      with False e2 a2 show ?thesis by (simp add: addMemory_def Let_def)
    next
      case (Inr v)
      show ?thesis
      proof (cases v)
        case None
        with False e2 a2 Inr show ?thesis by (simp add: addMemory_def Let_def)
      next
        case (Some vec)
        obtain r3 s3 where t3: "ensureTable e (length vec) s2 = (r3, s3)"
          by (cases "ensureTable e (length vec) s2")
        have a3: "handles_agree s3" using ensureTable_agree [OF t3 a2] .
        show ?thesis
        proof (cases r3)
          case (Inl err)
          with False e2 Inr Some t3 a3 show ?thesis by (simp add: addMemory_def Let_def)
        next
          case r3: (Inr u)
          let ?s4 = "case cid of
               None \<Rightarrow> s3
             | Some c \<Rightarrow>
                 (if c \<noteq> [] then
                    (case table_delete e (id_filter (sanitizeId c)) s3 of
                       (Inl err, s') \<Rightarrow> s'
                     | (Inr u', s') \<Rightarrow> s')
                  else s3)"
          have a4: "handles_agree ?s4"
            using a3 by (auto split: option.splits prod.splits sum.splits simp: table_delete_agree)
          from False e2 Inr Some t3 r3 show ?thesis
            using a4 by (auto simp: addMemory_def Let_def split: prod.splits sum.splits
                dest: table_add_agree)
        qed
      qed
    qed
  qed
qed

section \<open>The claims\<close>




text \<open>
  C2, as the code has it. \<open>embed\<close> calls the service at most
  \<open>EMBED_RETRY_COUNT = 3\<close> times. When the call number \<open>k + 1\<close> is the first to
  succeed, its first vector is returned, after \<open>k + 1\<close> calls and the delays
  \<open>EMBED_RETRY_DELAY_MS * 1, ..., EMBED_RETRY_DELAY_MS * k\<close>, one after each failed
  attempt. When all three calls fail, two delays were requested and the value thrown by
  the last call is thrown on: as it is when it is an instance of \<open>Error\<close>, and
  otherwise wrapped in a new \<open>Error\<close> whose message is its text.
\<close>

theorem embed_retry:
  "embed_calls (snd (embed e text s)) \<le> embed_calls s + EMBED_RETRY_COUNT
   \<and> (\<forall>k v. k < EMBED_RETRY_COUNT
          \<and> (\<forall>j<k. isl (ollama_embed e (embed_calls s + j) text))
          \<and> ollama_embed e (embed_calls s + k) text = Inr v
        \<longrightarrow> embed e text s =
              (Inr (first v),
               s\<lparr>embed_calls := embed_calls s + k + 1,
                 timers := timers s @ map (\<lambda>a. EMBED_RETRY_DELAY_MS * a) [1..<k + 1]\<rparr>))
   \<and> (\<forall>t. (\<forall>j<EMBED_RETRY_COUNT. isl (ollama_embed e (embed_calls s + j) text))
          \<and> ollama_embed e (embed_calls s + (EMBED_RETRY_COUNT - 1)) text = Inl t
        \<longrightarrow> embed e text s =
              (Inl (case t of ErrorInstance m \<Rightarrow> Thrown t | NonError v \<Rightarrow> Wrapped v),
               s\<lparr>embed_calls := embed_calls s + EMBED_RETRY_COUNT,
                 timers := timers s @ map (\<lambda>a. EMBED_RETRY_DELAY_MS * a) [1..<EMBED_RETRY_COUNT]\<rparr>))"
  using embed_calls_bound embed_first_success embed_all_failed by blast

theorem embed_retry_witness:
  "embed env_third (lit ''hello'') fresh =
     (Inr (Some [1, 0]), fresh\<lparr>embed_calls := 3, timers := [1000, 2000]\<rparr>)
   \<and> embed env_down (lit ''hello'') fresh =
     (Inl (Thrown (ErrorInstance (lit ''fetch failed''))), fresh\<lparr>embed_calls := 3, timers := [1000, 2000]\<rparr>)"
proof -
  note r = embed_retry [of env_third "lit ''hello''" fresh, THEN conjunct2, THEN conjunct1,
      rule_format, of 2 "[[1, 0]]"]
  note f = embed_retry [of env_down "lit ''hello''" fresh, THEN conjunct2, THEN conjunct2,
      rule_format, of "ErrorInstance (lit ''fetch failed'')"]
  have a: "embed env_third (lit ''hello'') fresh =
     (Inr (Some [1, 0]), fresh\<lparr>embed_calls := 3, timers := [1000, 2000]\<rparr>)"
    using r by (simp add: env_third_def env_ok_def fresh_def EMBED_RETRY_COUNT_def
        EMBED_RETRY_DELAY_MS_def upt_rec numeral_2_eq_2)
  have b: "embed env_down (lit ''hello'') fresh =
     (Inl (Thrown (ErrorInstance (lit ''fetch failed''))), fresh\<lparr>embed_calls := 3, timers := [1000, 2000]\<rparr>)"
    using f by (simp add: env_down_def env_ok_def fresh_def EMBED_RETRY_COUNT_def
        EMBED_RETRY_DELAY_MS_def upt_rec numeral_2_eq_2 numeral_3_eq_3)
  from a b show ?thesis by simp
qed

text \<open>
  C2 as stated fails where it says that the error of the last attempt reaches the caller
  unchanged: a service that rejects three times with the string \<open>boom\<close> makes
  \<open>embed\<close> throw a new \<open>Error\<close> with the message \<open>boom\<close>, not the string.
\<close>

theorem embed_wraps_non_error:
  "ollama_embed env_boom 0 (lit ''hello'') = Inl (NonError (lit ''boom''))
   \<and> ollama_embed env_boom 1 (lit ''hello'') = Inl (NonError (lit ''boom''))
   \<and> ollama_embed env_boom 2 (lit ''hello'') = Inl (NonError (lit ''boom''))
   \<and> fst (embed env_boom (lit ''hello'') fresh) = Inl (Wrapped (lit ''boom''))
   \<and> fst (embed env_boom (lit ''hello'') fresh) \<noteq> Inl (Thrown (NonError (lit ''boom'')))"
  by (simp add: embed_unrolled env_boom_def env_ok_def fresh_def)

text \<open>
  C3. With a \<open>customId\<close>, \<open>addMemory\<close> deletes the record of that id, inserts the
  new one and returns the \<open>customId\<close>, so that the same call again leaves one record
  of that id; without one, the id is generated. The code misses the empty string:
  \<open>customId ?? generateId()\<close> takes it as the id, and \<open>if (customId)\<close> skips the
  delete for it. On a new store, two calls with the \<open>customId\<close> \<open>""\<close> both
  return \<open>""\<close> and leave two records with the id \<open>""\<close>.
\<close>

theorem addMemory_empty_customId_twice:
  "fst (addMemory env_ok hello None (Some []) fresh) = Inr []
   \<and> fst (addMemory env_ok hello None (Some [])
           (snd (addMemory env_ok hello None (Some []) fresh))) = Inr []
   \<and> map_option (\<lambda>t. map id_rec (rows t))
       (disk (snd (addMemory env_ok hello None (Some [])
                     (snd (addMemory env_ok hello None (Some []) fresh))))) = Some [[], []]"
proof -
  let ?s1 = "snd (addMemory env_ok hello None (Some []) fresh)"
  let ?r = "new_record env_ok hello None (Some []) [1, 0]"
  have d0: "case disk fresh of Some t \<Rightarrow> dim t = length [1::real, 0] | None \<Rightarrow> True"
    by (simp add: fresh_def)
  note a1 = addMemory_ok [OF handles_agree_fresh hello_accepted embed_env_ok d0, of None "Some []"]
  have i: "id_rec ?r = []" by (simp add: new_record_def)
  have d1: "disk ?s1 = Some \<lparr>dim = 2, rows = [?r]\<rparr>"
    using a1(2) by (simp add: fresh_def rows_after_delete_def)
  have dm: "case disk ?s1 of Some t \<Rightarrow> dim t = length [1::real, 0] | None \<Rightarrow> True"
    using d1 by simp
  note a2 = addMemory_ok [OF a1(3) hello_accepted embed_env_ok dm, of None "Some []"]
  have d2: "disk (snd (addMemory env_ok hello None (Some []) ?s1)) = Some \<lparr>dim = 2, rows = [?r, ?r]\<rparr>"
    using a2(2) d1 by (simp add: rows_after_delete_def)
  from a1(1) a2(1) d2 i show ?thesis by simp
qed

text \<open>
  C4. For every query and limit, \<open>search\<close> on a client whose store has no table
  (and whose handles agree with the store) returns the empty list and raises no error.
  It makes no embedding call and leaves the store without a table.
\<close>

theorem search_without_table:
  "handles_agree s \<Longrightarrow> disk s = None \<Longrightarrow>
     search e query limit s = (Inr [], ensureInitialized s)
     \<and> disk (ensureInitialized s) = None
     \<and> embed_calls (ensureInitialized s) = embed_calls s"
  by (simp add: search_def Let_def ensureInitialized_agree ensureInitialized_simps)

theorem search_without_table_witness:
  "handles_agree fresh \<and> disk fresh = None
   \<and> search env_ok (lit ''anything'') (Some 3) fresh =
       (Inr [], fresh\<lparr>db := True, initPromise := True, store_log := [Connect, TableNames]\<rparr>)"
proof -
  have d: "disk fresh = None" by (simp add: fresh_def)
  from search_without_table [OF handles_agree_fresh d, of env_ok "lit ''anything''" "Some 3"]
  show ?thesis using d by (simp add: handles_agree_fresh ensureInitialized_fresh)
qed

text \<open>
  C5. \<open>updateProfile\<close> appends to the stable facts exactly the elements of
  \<open>staticFacts\<close> that the list does not have yet, so that the list has no
  duplicate. The code misses this for a fact that one call gives twice: the set
  \<open>existing\<close> is built from the stored list before the loop and the loop does not
  add to it, so every occurrence of a fact that the stored list does not have is
  appended. On a new client \<open>updateProfile(["fact A", "fact A"])\<close> stores the
  stable facts \<open>[A, A]\<close>. After \<open>updateProfile(["fact A"])\<close>, which stores
  \<open>[A]\<close>, the call with \<open>["fact A", "fact B"]\<close> stores \<open>[A, B]\<close>, as the
  statement has it, and the call with \<open>["fact B", "fact B"]\<close> stores
  \<open>[A, B, B]\<close>.
\<close>

theorem updateProfile_repeated_fact:
  "updateProfile env_ok (Some [fact_A, fact_A]) None fresh =
     (Inr (),
      fresh\<lparr>db := True, initPromise := True, store_log := [Connect, TableNames],
            profile_file := Parsed \<lparr>static = Some [fact_A, fact_A], dynamic = Some [],
                                    lastUpdated = Some (iso_now env_ok)\<rparr>,
            profile_writes := 1\<rparr>)
   \<and> \<not> distinct [fact_A, fact_A]
   \<and> profile_file (snd (updateProfile env_ok (Some [fact_A]) None fresh)) =
       Parsed \<lparr>static = Some [fact_A], dynamic = Some [], lastUpdated = Some (iso_now env_ok)\<rparr>
   \<and> profile_file (snd (updateProfile env_ok (Some [fact_A, fact_B]) None
                           (snd (updateProfile env_ok (Some [fact_A]) None fresh)))) =
       Parsed \<lparr>static = Some [fact_A, fact_B], dynamic = Some [],
               lastUpdated = Some (iso_now env_ok)\<rparr>
   \<and> profile_file (snd (updateProfile env_ok (Some [fact_B, fact_B]) None
                           (snd (updateProfile env_ok (Some [fact_A]) None fresh)))) =
       Parsed \<lparr>static = Some [fact_A, fact_B, fact_B], dynamic = Some [],
               lastUpdated = Some (iso_now env_ok)\<rparr>"
proof -
  let ?s1 = "snd (updateProfile env_ok (Some [fact_A]) None fresh)"
  let ?p1 = "\<lparr>static = Some [fact_A], dynamic = Some [], lastUpdated = Some (iso_now env_ok)\<rparr>"
  have n: "profile_file fresh = NoProfile" by (simp add: fresh_def)
  have ne: "fact_B \<noteq> fact_A" by (simp add: fact_A_def fact_B_def lit_def)
  have 1: "updateProfile env_ok (Some [fact_A, fact_A]) None fresh =
     (Inr (),
      fresh\<lparr>db := True, initPromise := True, store_log := [Connect, TableNames],
            profile_file := Parsed \<lparr>static = Some [fact_A, fact_A], dynamic = Some [],
                                    lastUpdated = Some (iso_now env_ok)\<rparr>,
            profile_writes := 1\<rparr>)"
    by (simp add: updateProfile_new [OF n] ensureInitialized_fresh) (simp add: fresh_def)
  have p1: "profile_file ?s1 = Parsed ?p1"
    by (simp add: updateProfile_new [OF n])
  have st: "static ?p1 = Some [fact_A]" by simp
  have 2: "profile_file (snd (updateProfile env_ok (Some [fact_A, fact_B]) None ?s1)) =
       Parsed \<lparr>static = Some [fact_A, fact_B], dynamic = Some [],
               lastUpdated = Some (iso_now env_ok)\<rparr>"
    using ne by (simp add: updateProfile_stored [OF p1 st])
  have 3: "profile_file (snd (updateProfile env_ok (Some [fact_B, fact_B]) None ?s1)) =
       Parsed \<lparr>static = Some [fact_A, fact_B, fact_B], dynamic = Some [],
               lastUpdated = Some (iso_now env_ok)\<rparr>"
    using ne by (simp add: updateProfile_stored [OF p1 st])
  from 1 p1 2 3 show ?thesis by simp
qed

text \<open>
  C6. On a store with a table, \<open>wipeAllMemories\<close> returns the number of rows of the
  table, counted right before the drop (\<open>countRows\<close>, then \<open>dropTable\<close>), and
  leaves the store without a table. Right afterwards every \<open>search\<close> returns the
  empty list and changes nothing, and an \<open>addMemory\<close> with accepted content whose
  embedding succeeds with a vector \<open>vec\<close> returns its id and leaves a table of
  dimension \<open>length vec\<close> that holds the new record alone.
\<close>

theorem wipe_with_table:
  "handles_agree s \<Longrightarrow> disk s = Some t \<Longrightarrow>
     fst (wipeAllMemories s) = Inr (length (rows t))
     \<and> store_log (snd (wipeAllMemories s)) = store_log (ensureInitialized s) @ [CountRows, DropTable]
     \<and> disk (snd (wipeAllMemories s)) = None
     \<and> (\<forall>query limit.
           search e query limit (snd (wipeAllMemories s)) = (Inr [], snd (wipeAllMemories s)))
     \<and> (\<forall>c md cid vec s2.
           trim c \<noteq> [] \<and> length (trim c) \<le> MAX_CONTENT_LENGTH
           \<and> embed e (trim c) (snd (wipeAllMemories s)) = (Inr (Some vec), s2)
           \<longrightarrow> fst (addMemory e c md cid (snd (wipeAllMemories s))) =
                 Inr (case cid of Some i \<Rightarrow> i | None \<Rightarrow> generateId e)
               \<and> disk (snd (addMemory e c md cid (snd (wipeAllMemories s)))) =
                 Some \<lparr>dim = length vec, rows = [new_record e c md cid vec]\<rparr>)"
proof -
  assume a: "handles_agree s" "disk s = Some t"
  let ?w = "snd (wipeAllMemories s)"
  note w = wipe_ok [OF a]
  have idem: "ensureInitialized ?w = ?w"
    using w(4) by (rule ensureInitialized_idem)
  have srch: "search e query limit ?w = (Inr [], ?w)" for query limit
    using search_no_table [OF w(5) w(3), of e query limit] idem by simp
  have add: "fst (addMemory e c md cid ?w) = Inr (case cid of Some i \<Rightarrow> i | None \<Rightarrow> generateId e)
      \<and> disk (snd (addMemory e c md cid ?w)) = Some \<lparr>dim = length vec, rows = [new_record e c md cid vec]\<rparr>"
    if "trim c \<noteq> []" "length (trim c) \<le> MAX_CONTENT_LENGTH"
      "embed e (trim c) ?w = (Inr (Some vec), s2)" for c md cid vec s2
  proof -
    have e2: "embed e (trim c) (ensureInitialized ?w) = (Inr (Some vec), s2)"
      using that(3) idem by simp
    have dm: "case disk ?w of Some t \<Rightarrow> dim t = length vec | None \<Rightarrow> True"
      using w(3) by simp
    note r = addMemory_ok [OF w(5) that(1,2) e2 dm, of md cid]
    have "rows_after_delete e cid [] = []"
      by (simp add: rows_after_delete_def split: option.splits sum.splits)
    with r(1,2) w(3) show ?thesis by (simp add: new_record_def)
  qed
  show ?thesis using w(1,2,3) srch add by blast
qed

theorem wipe_with_table_witness:
  "handles_agree stocked \<and> disk stocked = Some \<lparr>dim = 3, rows = [row_a, row_b]\<rparr>
   \<and> fst (wipeAllMemories stocked) = Inr 2
   \<and> search env_ok hello None (snd (wipeAllMemories stocked)) = (Inr [], snd (wipeAllMemories stocked))
   \<and> fst (addMemory env_ok hello None None (snd (wipeAllMemories stocked))) = Inr (generateId env_ok)
   \<and> disk (snd (addMemory env_ok hello None None (snd (wipeAllMemories stocked)))) =
       Some \<lparr>dim = 2, rows = [new_record env_ok hello None None [1, 0]]\<rparr>"
proof -
  have d: "disk stocked = Some \<lparr>dim = 3, rows = [row_a, row_b]\<rparr>"
    by (simp add: stocked_def)
  note w = wipe_with_table [OF handles_agree_stocked d, of env_ok]
  from w have 1: "fst (wipeAllMemories stocked) = Inr 2" by simp
  from w have 2: "search env_ok hello None (snd (wipeAllMemories stocked)) =
      (Inr [], snd (wipeAllMemories stocked))" by blast
  from w have "trim hello \<noteq> [] \<and> length (trim hello) \<le> MAX_CONTENT_LENGTH
      \<and> embed env_ok (trim hello) (snd (wipeAllMemories stocked)) =
          (Inr (Some [1, 0]),
           (snd (wipeAllMemories stocked))\<lparr>embed_calls := embed_calls (snd (wipeAllMemories stocked)) + 1\<rparr>)
      \<longrightarrow> fst (addMemory env_ok hello None None (snd (wipeAllMemories stocked))) =
            Inr (case None of Some i \<Rightarrow> i | None \<Rightarrow> generateId env_ok)
          \<and> disk (snd (addMemory env_ok hello None None (snd (wipeAllMemories stocked)))) =
            Some \<lparr>dim = length [1::real, 0], rows = [new_record env_ok hello None None [1, 0]]\<rparr>"
    by blast
  then have 3: "fst (addMemory env_ok hello None None (snd (wipeAllMemories stocked))) =
        Inr (generateId env_ok)
      \<and> disk (snd (addMemory env_ok hello None None (snd (wipeAllMemories stocked)))) =
        Some \<lparr>dim = 2, rows = [new_record env_ok hello None None [1, 0]]\<rparr>"
    using hello_accepted by (simp add: embed_env_ok)
  from 1 2 3 d handles_agree_stocked show ?thesis by simp
qed

text \<open>
  C7. \<open>addMemory\<close> trims the content and raises a validation error exactly when
  the trimmed content is empty or longer than \<open>MAX_CONTENT_LENGTH = 50000\<close>:
  \<open>EmptyContent\<close> in the first case, \<open>ContentTooLarge\<close> in the second. The
  error comes right after initialization: no embedding call and no timer (so no retry),
  and the table is as before.
\<close>

theorem addMemory_validation:
  "((\<exists>err. fst (addMemory e c md cid s) = Inl err \<and> is_validation_error err)
      \<longleftrightarrow> trim c = [] \<or> length (trim c) > MAX_CONTENT_LENGTH)
   \<and> (trim c = [] \<longrightarrow> fst (addMemory e c md cid s) = Inl EmptyContent)
   \<and> (trim c \<noteq> [] \<and> length (trim c) > MAX_CONTENT_LENGTH \<longrightarrow>
        fst (addMemory e c md cid s) = Inl (ContentTooLarge (length (trim c)) MAX_CONTENT_LENGTH))
   \<and> (trim c = [] \<or> length (trim c) > MAX_CONTENT_LENGTH \<longrightarrow>
        snd (addMemory e c md cid s) = ensureInitialized s
        \<and> embed_calls (snd (addMemory e c md cid s)) = embed_calls s
        \<and> timers (snd (addMemory e c md cid s)) = timers s
        \<and> disk (snd (addMemory e c md cid s)) = disk s)"
proof -
  let ?r = "addMemory e c md cid s"
  let ?bad = "trim c = [] \<or> length (trim c) > MAX_CONTENT_LENGTH"
  have accepted: "\<not> is_validation_error err"
    if "\<not> ?bad" and "fst ?r = Inl err" for err
  proof -
    from that(2) have "?r = (Inl err, snd ?r)" by (simp add: prod_eq_iff)
    with that(1) show ?thesis
      using addMemory_accepted_error_kind [of c e md cid s err "snd ?r"] by simp
  qed
  have empty: "?r = (Inl EmptyContent, ensureInitialized s)" if "trim c = []"
    using that by (rule addMemory_empty)
  have large: "?r = (Inl (ContentTooLarge (length (trim c)) MAX_CONTENT_LENGTH), ensureInitialized s)"
    if "trim c \<noteq> []" and "length (trim c) > MAX_CONTENT_LENGTH"
    using that by (rule addMemory_too_large)
  have refused: "\<exists>err. fst ?r = Inl err \<and> is_validation_error err" if ?bad
  proof (cases "trim c = []")
    case True
    then show ?thesis using empty by simp
  next
    case False
    with that show ?thesis using large by simp
  qed
  have quiet: "snd ?r = ensureInitialized s" if ?bad
  proof (cases "trim c = []")
    case True
    then show ?thesis using empty by simp
  next
    case False
    with that show ?thesis using large by simp
  qed
  have 1: "(\<exists>err. fst ?r = Inl err \<and> is_validation_error err) \<longleftrightarrow> ?bad"
    using accepted refused by blast
  have 2: "trim c = [] \<longrightarrow> fst ?r = Inl EmptyContent"
    using empty by simp
  have 3: "trim c \<noteq> [] \<and> length (trim c) > MAX_CONTENT_LENGTH \<longrightarrow>
        fst ?r = Inl (ContentTooLarge (length (trim c)) MAX_CONTENT_LENGTH)"
    using large by simp
  have 4: "?bad \<longrightarrow> snd ?r = ensureInitialized s
        \<and> embed_calls (snd ?r) = embed_calls s
        \<and> timers (snd ?r) = timers s
        \<and> disk (snd ?r) = disk s"
    using quiet by (simp add: ensureInitialized_simps)
  from 1 2 3 4 show ?thesis by blast
qed

theorem addMemory_validation_witness:
  "fst (addMemory env_ok blank None None fresh) = Inl EmptyContent
   \<and> fst (addMemory env_ok oversized None None fresh) = Inl (ContentTooLarge 50001 50000)
   \<and> embed_calls (snd (addMemory env_ok oversized None None fresh)) = 0
   \<and> disk (snd (addMemory env_ok oversized None None fresh)) = None"
proof -
  have len: "length oversized = 50001" by (simp add: oversized_def)
  have f: "embed_calls fresh = 0" "disk fresh = None" by (simp_all add: fresh_def)
  have ne: "oversized \<noteq> []" using len by auto
  from addMemory_validation [of env_ok blank None None fresh]
  have a: "fst (addMemory env_ok blank None None fresh) = Inl EmptyContent"
    by (simp add: trim_blank)
  from addMemory_validation [of env_ok oversized None None fresh]
  have b: "fst (addMemory env_ok oversized None None fresh) = Inl (ContentTooLarge 50001 50000)
     \<and> embed_calls (snd (addMemory env_ok oversized None None fresh)) = 0
     \<and> disk (snd (addMemory env_ok oversized None None fresh)) = None"
    by (simp add: trim_oversized len ne f MAX_CONTENT_LENGTH_def ensureInitialized_simps)
  from a b show ?thesis by simp
qed

text \<open>
  C8. For every id, every quote of the id is neutralized in the filter that
  \<open>deleteMemory\<close> and \<open>addMemory\<close> build, so that the id cannot change the
  structure of the filter. The code misses this: \<open>sanitizeId\<close> writes a backslash
  before each quote and leaves the quote where it is, and the id's own backslashes as
  they are. For the id \<open>quote_breaker\<close>, a backslash, a double quote and the text
  \<open> OR 1=1 --\<close>, the literal of the filter ends at the id's quote, after the two
  backslashes, and the text \<open> OR 1=1 --\<close> and the closing quote of the filter stand
  outside it: the filter is not the comparison of the column \<open>id\<close> with a value,
  and what the delete does is what the engine makes of the whole text.
\<close>

theorem sanitizeId_quote_after_backslash:
  "sanitizeId quote_breaker = [BACKSLASH, BACKSLASH, DQUOTE] @ lit '' OR 1=1 --''
   \<and> id_filter (sanitizeId quote_breaker) =
       lit ''id = '' @ [DQUOTE, BACKSLASH, BACKSLASH, DQUOTE] @ lit '' OR 1=1 --'' @ [DQUOTE]
   \<and> read_literal (sanitizeId quote_breaker @ [DQUOTE]) =
       Some ([BACKSLASH, BACKSLASH], lit '' OR 1=1 --'' @ [DQUOTE])
   \<and> takeWhile (\<lambda>c. c \<noteq> DQUOTE) (sanitizeId quote_breaker @ [DQUOTE]) = [BACKSLASH, BACKSLASH]
   \<and> read_id_filter (id_filter (sanitizeId quote_breaker)) = None
   \<and> read_filter e (id_filter (sanitizeId quote_breaker)) =
       other_filter e (id_filter (sanitizeId quote_breaker))"
  by (simp add: quote_breaker_def sanitizeId_def replace_all_def id_filter_def read_id_filter_def
      read_filter_def chars)

text \<open>
  C10. \<open>wipeAllMemories\<close> on a client whose store has no table returns
  \<open>deletedCount = 0\<close> and raises no error; it calls neither \<open>countRows\<close> nor
  \<open>dropTable\<close> (the only calls to the store are those of an initialization still to
  run), and the store has no table afterwards. An initialized client is left as it was.
\<close>

theorem wipe_without_table:
  "handles_agree s \<Longrightarrow> disk s = None \<Longrightarrow>
     wipeAllMemories s = (Inr 0, ensureInitialized s)
     \<and> disk (ensureInitialized s) = None
     \<and> store_log (ensureInitialized s) =
         store_log s @ (if initPromise s then [] else [Connect, TableNames])
     \<and> (initPromise s \<longrightarrow> ensureInitialized s = s)"
  by (simp add: wipeAllMemories_def Let_def ensureInitialized_agree ensureInitialized_simps
      ensureInitialized_idem ensureInitialized_log)

theorem wipe_without_table_witness:
  "handles_agree fresh \<and> disk fresh = None
   \<and> wipeAllMemories fresh =
       (Inr 0, fresh\<lparr>db := True, initPromise := True, store_log := [Connect, TableNames]\<rparr>)"
proof -
  have d: "disk fresh = None" by (simp add: fresh_def)
  from wipe_without_table [OF handles_agree_fresh d]
  show ?thesis using d by (simp add: handles_agree_fresh ensureInitialized_fresh)
qed

end
